theory Spec2Isabelle
  imports Complex_Main
begin

section \<open>The irrigation recommendation of the Gatsibo dashboard\<close>

text \<open>
  The only decision logic of \<^verbatim>\<open>app.py\<close> is the conditional of the Dashboard page
  (lines 166 to 181). It reads one number, \<^verbatim>\<open>latest_week['Irrigation_needed_mm']\<close>,
  compares it with the constants 5, 20 and 40, and assigns three strings:
  \<^verbatim>\<open>recommendation\<close>, \<^verbatim>\<open>color\<close> and \<^verbatim>\<open>advice\<close>.
\<close>

subsection \<open>The number read from the weekly table\<close>

text \<open>
  The weekly table is read by pandas from a CSV file, so a cell of a numeric column is a
  64-bit float: a finite number, one of the two infinities, or NaN (which is also what an
  empty cell becomes). A finite float is a real number, and the comparison of a float
  with an integer constant is exact, so the finite values are modelled as reals. The
  lines before the conditional format the same cell with \<^verbatim>\<open>:.1f\<close>, which only
  a number passes, so no other kind of value reaches the conditional.
\<close>

datatype f64 = Finite real | PosInf | NegInf | NaN

text \<open>
  \<^verbatim>\<open>v < c\<close> for a float \<open>v\<close> and a finite constant \<open>c\<close>: every comparison with NaN is
  false, minus infinity is below every finite number, plus infinity below none.
\<close>

fun f64_lt :: "f64 \<Rightarrow> real \<Rightarrow> bool" where
  "f64_lt (Finite x) c = (x < c)"
| "f64_lt PosInf c = False"
| "f64_lt NegInf c = True"
| "f64_lt NaN c = False"

subsection \<open>The row and the three strings\<close>

text \<open>
  \<^verbatim>\<open>latest_week\<close> is the last row of the weekly table; these are the columns the
  program reads from it.
\<close>

record weekly_row =
  Irrigation_needed_mm :: f64
  Rainfall_week_mm :: f64
  ETc_week_mm :: f64
  Rainfall_effective_mm :: f64

text \<open>The three variables the conditional assigns.\<close>

record advisory =
  recommendation :: string
  color :: string
  advice :: string

subsection \<open>The conditional\<close>

text \<open>
  The cascade of lines 166 to 181, branch by branch and in the order of the source. The
  specification calls it \<open>classify\<close>; the source has it inline and gives it no name.
\<close>

definition classify :: "f64 \<Rightarrow> advisory" where
  "classify v =
     (if f64_lt v 5 then
        \<lparr>recommendation = ''MINIMAL irrigation needed'',
         color = ''#4CAF50'',
         advice = ''Recent rainfall is sufficient. Monitor crop condition.''\<rparr>
      else if f64_lt v 20 then
        \<lparr>recommendation = ''LIGHT irrigation recommended'',
         color = ''#FFC107'',
         advice = ''Supplement rainfall with light irrigation.''\<rparr>
      else if f64_lt v 40 then
        \<lparr>recommendation = ''MODERATE irrigation required'',
         color = ''#FF9800'',
         advice = ''Regular irrigation needed to maintain crop health.''\<rparr>
      else
        \<lparr>recommendation = ''HEAVY irrigation required'',
         color = ''#F44336'',
         advice = ''Crop water stress likely. Irrigate immediately!''\<rparr>)"

text \<open>The conditional as the Dashboard page runs it: on the row \<^verbatim>\<open>latest_week\<close>.\<close>

definition dashboard_recommendation :: "weekly_row \<Rightarrow> advisory" where
  "dashboard_recommendation latest_week = classify (Irrigation_needed_mm latest_week)"

subsection \<open>Tiers\<close>

text \<open>
  The source has no tier type: the tier is the first word of \<^verbatim>\<open>recommendation\<close>.
  The enumeration and its order (MINIMAL below LIGHT below MODERATE below HEAVY) are the
  specification's; \<open>tier_of\<close> reads the tier off the string the code produced.
\<close>

datatype tier = MINIMAL | LIGHT | MODERATE | HEAVY

definition tier_of :: "string \<Rightarrow> tier option" where
  "tier_of r =
     (let w = takeWhile (\<lambda>c. c \<noteq> CHR '' '') r in
      if w = ''MINIMAL'' then Some MINIMAL
      else if w = ''LIGHT'' then Some LIGHT
      else if w = ''MODERATE'' then Some MODERATE
      else if w = ''HEAVY'' then Some HEAVY
      else None)"

definition classify_tier :: "f64 \<Rightarrow> tier option" where
  "classify_tier v = tier_of (recommendation (classify v))"

fun severity_rank :: "tier \<Rightarrow> nat" where
  "severity_rank MINIMAL = 0"
| "severity_rank LIGHT = 1"
| "severity_rank MODERATE = 2"
| "severity_rank HEAVY = 3"

section \<open>What the conditional computes\<close>

subsection \<open>The four branches\<close>

text \<open>
  One lemma per branch: the condition under which the cascade reaches it, and the three
  strings it assigns. Everything below is derived from these.
\<close>

lemma classify_minimal:
  "f64_lt v 5 \<Longrightarrow> classify v =
     \<lparr>recommendation = ''MINIMAL irrigation needed'', color = ''#4CAF50'',
      advice = ''Recent rainfall is sufficient. Monitor crop condition.''\<rparr>"
  by (simp add: classify_def)

lemma classify_light:
  "\<not> f64_lt v 5 \<Longrightarrow> f64_lt v 20 \<Longrightarrow> classify v =
     \<lparr>recommendation = ''LIGHT irrigation recommended'', color = ''#FFC107'',
      advice = ''Supplement rainfall with light irrigation.''\<rparr>"
  by (simp add: classify_def)

lemma classify_moderate:
  "\<not> f64_lt v 5 \<Longrightarrow> \<not> f64_lt v 20 \<Longrightarrow> f64_lt v 40 \<Longrightarrow> classify v =
     \<lparr>recommendation = ''MODERATE irrigation required'', color = ''#FF9800'',
      advice = ''Regular irrigation needed to maintain crop health.''\<rparr>"
  by (simp add: classify_def)

lemma classify_heavy:
  "\<not> f64_lt v 5 \<Longrightarrow> \<not> f64_lt v 20 \<Longrightarrow> \<not> f64_lt v 40 \<Longrightarrow> classify v =
     \<lparr>recommendation = ''HEAVY irrigation required'', color = ''#F44336'',
      advice = ''Crop water stress likely. Irrigate immediately!''\<rparr>"
  by (simp add: classify_def)

lemma tier_of_strings:
  "tier_of ''MINIMAL irrigation needed'' = Some MINIMAL"
  "tier_of ''LIGHT irrigation recommended'' = Some LIGHT"
  "tier_of ''MODERATE irrigation required'' = Some MODERATE"
  "tier_of ''HEAVY irrigation required'' = Some HEAVY"
  by (simp_all add: tier_of_def)

lemma classify_tier_minimal: "f64_lt v 5 \<Longrightarrow> classify_tier v = Some MINIMAL"
  by (simp add: classify_tier_def classify_minimal tier_of_strings)

lemma classify_tier_light:
  "\<not> f64_lt v 5 \<Longrightarrow> f64_lt v 20 \<Longrightarrow> classify_tier v = Some LIGHT"
  by (simp add: classify_tier_def classify_light tier_of_strings)

lemma classify_tier_moderate:
  "\<not> f64_lt v 5 \<Longrightarrow> \<not> f64_lt v 20 \<Longrightarrow> f64_lt v 40 \<Longrightarrow> classify_tier v = Some MODERATE"
  by (simp add: classify_tier_def classify_moderate tier_of_strings)

lemma classify_tier_heavy:
  "\<not> f64_lt v 5 \<Longrightarrow> \<not> f64_lt v 20 \<Longrightarrow> \<not> f64_lt v 40 \<Longrightarrow> classify_tier v = Some HEAVY"
  by (simp add: classify_tier_def classify_heavy tier_of_strings)

text \<open>On a finite number the tier is decided by the three thresholds alone.\<close>

lemma classify_tier_Finite:
  "classify_tier (Finite x) =
     Some (if x < 5 then MINIMAL else if x < 20 then LIGHT
           else if x < 40 then MODERATE else HEAVY)"
  by (simp add: classify_tier_minimal classify_tier_light classify_tier_moderate
      classify_tier_heavy)

text \<open>Whatever the input, one of the four branches is taken.\<close>

lemma classify_tier_cases:
  obtains "classify_tier v = Some MINIMAL" "color (classify v) = ''#4CAF50''"
      "advice (classify v) = ''Recent rainfall is sufficient. Monitor crop condition.''"
  | "classify_tier v = Some LIGHT" "color (classify v) = ''#FFC107''"
      "advice (classify v) = ''Supplement rainfall with light irrigation.''"
  | "classify_tier v = Some MODERATE" "color (classify v) = ''#FF9800''"
      "advice (classify v) = ''Regular irrigation needed to maintain crop health.''"
  | "classify_tier v = Some HEAVY" "color (classify v) = ''#F44336''"
      "advice (classify v) = ''Crop water stress likely. Irrigate immediately!''"
proof (cases "f64_lt v 5")
  case True
  then show ?thesis
    using that(1) by (simp add: classify_tier_minimal classify_minimal)
next
  case n5: False
  show ?thesis
  proof (cases "f64_lt v 20")
    case True
    with n5 show ?thesis
      using that(2) by (simp add: classify_tier_light classify_light)
  next
    case n20: False
    show ?thesis
    proof (cases "f64_lt v 40")
      case True
      with n5 n20 show ?thesis
        using that(3) by (simp add: classify_tier_moderate classify_moderate)
    next
      case False
      with n5 n20 show ?thesis
        using that(4) by (simp add: classify_tier_heavy classify_heavy)
    qed
  qed
qed

subsection \<open>The decision intervals\<close>

text \<open>
  Claim C1. For every non-negative real \<open>x\<close> the conditional returns the tier, with its
  advice text, of the half-open interval that holds \<open>x\<close>: MINIMAL on [0, 5), LIGHT on
  [5, 20), MODERATE on [20, 40) and HEAVY from 40 on.
\<close>

theorem classify_decision_intervals:
  assumes "0 \<le> x"
  shows "(x \<in> {0..<5} \<longrightarrow>
            classify_tier (Finite x) = Some MINIMAL
          \<and> advice (classify (Finite x)) =
              ''Recent rainfall is sufficient. Monitor crop condition.'')
       \<and> (x \<in> {5..<20} \<longrightarrow>
            classify_tier (Finite x) = Some LIGHT
          \<and> advice (classify (Finite x)) = ''Supplement rainfall with light irrigation.'')
       \<and> (x \<in> {20..<40} \<longrightarrow>
            classify_tier (Finite x) = Some MODERATE
          \<and> advice (classify (Finite x)) =
              ''Regular irrigation needed to maintain crop health.'')
       \<and> (x \<in> {40..} \<longrightarrow>
            classify_tier (Finite x) = Some HEAVY
          \<and> advice (classify (Finite x)) =
              ''Crop water stress likely. Irrigate immediately!'')"
proof (intro conjI impI)
  assume "x \<in> {0..<5}"
  then have b: "f64_lt (Finite x) 5" by simp
  show "classify_tier (Finite x) = Some MINIMAL"
    using b by (rule classify_tier_minimal)
  show "advice (classify (Finite x)) =
      ''Recent rainfall is sufficient. Monitor crop condition.''"
    using b by (simp add: classify_minimal)
next
  assume "x \<in> {5..<20}"
  then have b: "\<not> f64_lt (Finite x) 5" "f64_lt (Finite x) 20" by simp_all
  show "classify_tier (Finite x) = Some LIGHT"
    using b by (rule classify_tier_light)
  show "advice (classify (Finite x)) = ''Supplement rainfall with light irrigation.''"
    using b by (simp add: classify_light)
next
  assume "x \<in> {20..<40}"
  then have b: "\<not> f64_lt (Finite x) 5" "\<not> f64_lt (Finite x) 20" "f64_lt (Finite x) 40"
    by simp_all
  show "classify_tier (Finite x) = Some MODERATE"
    using b by (rule classify_tier_moderate)
  show "advice (classify (Finite x)) = ''Regular irrigation needed to maintain crop health.''"
    using b by (simp add: classify_moderate)
next
  assume "x \<in> {40..}"
  then have b: "\<not> f64_lt (Finite x) 5" "\<not> f64_lt (Finite x) 20" "\<not> f64_lt (Finite x) 40"
    by simp_all
  show "classify_tier (Finite x) = Some HEAVY"
    using b by (rule classify_tier_heavy)
  show "advice (classify (Finite x)) = ''Crop water stress likely. Irrigate immediately!''"
    using b by (simp add: classify_heavy)
qed

theorem classify_decision_intervals_witness:
  "(0::real) \<le> 2 \<and> (2::real) \<in> {0..<5}
   \<and> classify_tier (Finite 2) = Some MINIMAL
   \<and> advice (classify (Finite 2)) = ''Recent rainfall is sufficient. Monitor crop condition.''
   \<and> (0::real) \<le> 10 \<and> (10::real) \<in> {5..<20}
   \<and> classify_tier (Finite 10) = Some LIGHT
   \<and> advice (classify (Finite 10)) = ''Supplement rainfall with light irrigation.''
   \<and> (0::real) \<le> 30 \<and> (30::real) \<in> {20..<40}
   \<and> classify_tier (Finite 30) = Some MODERATE
   \<and> advice (classify (Finite 30)) = ''Regular irrigation needed to maintain crop health.''
   \<and> (0::real) \<le> 50 \<and> (50::real) \<in> {40..}
   \<and> classify_tier (Finite 50) = Some HEAVY
   \<and> advice (classify (Finite 50)) = ''Crop water stress likely. Irrigate immediately!''"
  using classify_decision_intervals [of 2] classify_decision_intervals [of 10]
    classify_decision_intervals [of 30] classify_decision_intervals [of 50]
  by simp

subsection \<open>The thresholds\<close>

text \<open>
  Claim C2. Each threshold belongs to the upper tier: 5.0 is LIGHT, 20.0 is MODERATE and
  40.0 is HEAVY, while 4.999 is MINIMAL, 19.999 is LIGHT and 39.999 is MODERATE.
\<close>

theorem classify_boundaries:
  "classify_tier (Finite 5) = Some LIGHT
   \<and> classify_tier (Finite 20) = Some MODERATE
   \<and> classify_tier (Finite 40) = Some HEAVY
   \<and> classify_tier (Finite 4.999) = Some MINIMAL
   \<and> classify_tier (Finite 19.999) = Some LIGHT
   \<and> classify_tier (Finite 39.999) = Some MODERATE"
  by (simp add: classify_tier_Finite)

subsection \<open>Negative numbers and NaN\<close>

text \<open>
  Claim C3, as stated: the conditional rejects -1 and NaN with an InvalidInput error
  rather than returning any tier. It does not: it returns MINIMAL for -1 and HEAVY for
  NaN.
\<close>

theorem classify_rejection_counterexample:
  "classify_tier (Finite (- 1)) = Some MINIMAL \<and> classify_tier NaN = Some HEAVY"
  by (simp add: classify_tier_minimal classify_tier_heavy)

text \<open>
  Claim C3, amended. The conditional validates nothing and has no error: it returns a
  tier for every input, and so it does for negative and non-finite ones; -1 yields
  MINIMAL and NaN yields HEAVY.
\<close>

theorem classify_never_rejects:
  "(\<exists>t. classify_tier v = Some t)
   \<and> classify_tier (Finite (- 1)) = Some MINIMAL
   \<and> classify_tier NaN = Some HEAVY"
proof -
  have "\<exists>t. classify_tier v = Some t"
    by (rule classify_tier_cases [of v]) simp_all
  then show ?thesis
    by (simp add: classify_tier_minimal classify_tier_heavy)
qed

text \<open>
  Claim C9. For every strictly negative input the first comparison holds, so the
  conditional takes the first branch and returns the MINIMAL tier, with the colour
  "#4CAF50" and the advice "Recent rainfall is sufficient. Monitor crop condition.",
  and raises nothing. Minus infinity goes the same way.
\<close>

theorem classify_negative:
  assumes "x < 0"
  shows "f64_lt (Finite x) 5
       \<and> classify (Finite x) =
           \<lparr>recommendation = ''MINIMAL irrigation needed'', color = ''#4CAF50'',
            advice = ''Recent rainfall is sufficient. Monitor crop condition.''\<rparr>
       \<and> classify_tier (Finite x) = Some MINIMAL
       \<and> classify NegInf = classify (Finite x)"
proof -
  from assms have b: "f64_lt (Finite x) 5" by simp
  have n: "f64_lt NegInf 5" by simp
  show ?thesis
    using b by (simp add: classify_minimal [OF b] classify_minimal [OF n]
        classify_tier_minimal)
qed

theorem classify_negative_witness:
  "(- 3::real) < 0
   \<and> classify (Finite (- 3)) =
       \<lparr>recommendation = ''MINIMAL irrigation needed'', color = ''#4CAF50'',
        advice = ''Recent rainfall is sufficient. Monitor crop condition.''\<rparr>
   \<and> classify_tier (Finite (- 3)) = Some MINIMAL"
  using classify_negative [of "- 3"] by simp

text \<open>
  Claim C10. On NaN each of the three comparisons is false, so the conditional falls
  through to the final else branch and returns the HEAVY tier, with the colour "#F44336"
  and the advice "Crop water stress likely. Irrigate immediately!", and raises nothing.
\<close>

theorem classify_nan:
  "\<not> f64_lt NaN 5 \<and> \<not> f64_lt NaN 20 \<and> \<not> f64_lt NaN 40
   \<and> classify NaN =
       \<lparr>recommendation = ''HEAVY irrigation required'', color = ''#F44336'',
        advice = ''Crop water stress likely. Irrigate immediately!''\<rparr>
   \<and> classify_tier NaN = Some HEAVY"
  by (simp add: classify_heavy classify_tier_heavy)

subsection \<open>Order and totality\<close>

text \<open>
  Claim C4. The tier is monotonic in the input: for non-negative reals \<open>a \<le> b\<close> the
  severity rank of the tier at \<open>a\<close> is at most the severity rank of the tier at \<open>b\<close>.
\<close>

theorem classify_monotonic:
  assumes "0 \<le> a" and "a \<le> b"
  shows "\<exists>s t. classify_tier (Finite a) = Some s \<and> classify_tier (Finite b) = Some t
           \<and> severity_rank s \<le> severity_rank t"
proof -
  let ?s = "if a < 5 then MINIMAL else if a < 20 then LIGHT
            else if a < 40 then MODERATE else HEAVY"
  let ?t = "if b < 5 then MINIMAL else if b < 20 then LIGHT
            else if b < 40 then MODERATE else HEAVY"
  have "severity_rank ?s \<le> severity_rank ?t"
    using \<open>a \<le> b\<close> by simp
  then show ?thesis
    using classify_tier_Finite [of a] classify_tier_Finite [of b] by blast
qed

theorem classify_monotonic_witness:
  "(0::real) \<le> 3 \<and> (3::real) \<le> 25
   \<and> (\<exists>s t. classify_tier (Finite 3) = Some s \<and> classify_tier (Finite 25) = Some t
         \<and> severity_rank s \<le> severity_rank t)
   \<and> classify_tier (Finite 3) = Some MINIMAL \<and> classify_tier (Finite 25) = Some MODERATE"
  using classify_monotonic [of 3 25] by (simp add: classify_tier_Finite)

text \<open>
  Claim C5. The conditional is total and exhaustive on the non-negative reals: for every
  \<open>x \<ge> 0\<close> it returns exactly one tier, one of MINIMAL, LIGHT, MODERATE and HEAVY.
\<close>

theorem classify_total:
  assumes "0 \<le> x"
  shows "\<exists>!t. classify_tier (Finite x) = Some t \<and> t \<in> {MINIMAL, LIGHT, MODERATE, HEAVY}"
proof -
  obtain t where t: "classify_tier (Finite x) = Some t"
    by (simp add: classify_tier_Finite)
  have "t \<in> {MINIMAL, LIGHT, MODERATE, HEAVY}"
    by (cases t) simp_all
  with t show ?thesis by auto
qed

theorem classify_total_witness:
  "(0::real) \<le> 12
   \<and> (\<exists>!t. classify_tier (Finite 12) = Some t \<and> t \<in> {MINIMAL, LIGHT, MODERATE, HEAVY})
   \<and> classify_tier (Finite 12) = Some LIGHT"
  using classify_total [of 12] by (simp add: classify_tier_Finite)

subsection \<open>Dependence on the one number\<close>

text \<open>
  Claim C6. The result depends on \<^verbatim>\<open>Irrigation_needed_mm\<close> alone: two rows with the
  same \<^verbatim>\<open>Irrigation_needed_mm\<close> get the same recommendation, colour and advice (and so
  the same tier), whatever their other columns hold. The conditional reads and writes
  no other state, so there is no call history for the result to depend on.
\<close>

theorem dashboard_recommendation_depends_on_need_only:
  assumes "Irrigation_needed_mm r1 = Irrigation_needed_mm r2"
  shows "dashboard_recommendation r1 = dashboard_recommendation r2
       \<and> tier_of (recommendation (dashboard_recommendation r1)) =
           tier_of (recommendation (dashboard_recommendation r2))"
  using assms by (simp add: dashboard_recommendation_def)

theorem dashboard_recommendation_depends_on_need_only_witness:
  "Irrigation_needed_mm
     \<lparr>Irrigation_needed_mm = Finite 12, Rainfall_week_mm = Finite 3,
      ETc_week_mm = Finite 15, Rainfall_effective_mm = Finite 2\<rparr> =
   Irrigation_needed_mm
     \<lparr>Irrigation_needed_mm = Finite 12, Rainfall_week_mm = Finite 40,
      ETc_week_mm = NaN, Rainfall_effective_mm = Finite 32\<rparr>
   \<and> dashboard_recommendation
       \<lparr>Irrigation_needed_mm = Finite 12, Rainfall_week_mm = Finite 3,
        ETc_week_mm = Finite 15, Rainfall_effective_mm = Finite 2\<rparr> =
     dashboard_recommendation
       \<lparr>Irrigation_needed_mm = Finite 12, Rainfall_week_mm = Finite 40,
        ETc_week_mm = NaN, Rainfall_effective_mm = Finite 32\<rparr>"
  using dashboard_recommendation_depends_on_need_only
    [of "\<lparr>Irrigation_needed_mm = Finite 12, Rainfall_week_mm = Finite 3,
          ETc_week_mm = Finite 15, Rainfall_effective_mm = Finite 2\<rparr>"
        "\<lparr>Irrigation_needed_mm = Finite 12, Rainfall_week_mm = Finite 40,
          ETc_week_mm = NaN, Rainfall_effective_mm = Finite 32\<rparr>"]
  by simp

subsection \<open>Colour and advice follow the tier\<close>

text \<open>
  Claim C7. The colour and the advice are each a one-to-one function of the tier alone:
  two results have the same tier exactly when they have the same colour, and exactly
  when they have the same advice; and every tier is the tier of some input, so each of
  the four has its one colour and its one advice.
\<close>

theorem presentation_one_to_one:
  "(classify_tier v = classify_tier w) = (color (classify v) = color (classify w))
   \<and> (classify_tier v = classify_tier w) = (advice (classify v) = advice (classify w))
   \<and> (\<exists>u. classify_tier u = Some t)"
proof (intro conjI)
  show "(classify_tier v = classify_tier w) = (color (classify v) = color (classify w))"
    by (rule classify_tier_cases [of v]; rule classify_tier_cases [of w]) simp_all
  show "(classify_tier v = classify_tier w) = (advice (classify v) = advice (classify w))"
    by (rule classify_tier_cases [of v]; rule classify_tier_cases [of w]) simp_all
  show "\<exists>u. classify_tier u = Some t"
  proof (cases t)
    case MINIMAL
    then show ?thesis using classify_tier_Finite [of 0] by auto
  next
    case LIGHT
    then show ?thesis using classify_tier_Finite [of 5] by auto
  next
    case MODERATE
    then show ?thesis using classify_tier_Finite [of 20] by auto
  next
    case HEAVY
    then show ?thesis using classify_tier_Finite [of 40] by auto
  qed
qed

subsection \<open>Literal scenarios\<close>

text \<open>
  Claim C8. At 0.0 the conditional gives the tier MINIMAL with the advice "Recent rainfall
  is sufficient. Monitor crop condition."; at 35.5 it gives MODERATE; at 100.0 it gives
  HEAVY.
\<close>

theorem classify_scenarios:
  "classify_tier (Finite 0) = Some MINIMAL
   \<and> advice (classify (Finite 0)) = ''Recent rainfall is sufficient. Monitor crop condition.''
   \<and> classify_tier (Finite 35.5) = Some MODERATE
   \<and> classify_tier (Finite 100) = Some HEAVY"
  by (simp add: classify_tier_minimal classify_tier_moderate classify_tier_heavy
      classify_minimal)

end
